theory Spec2Isabelle
  imports Complex_Main "HOL-Library.Product_Lexorder"
begin

section \<open>Data model\<close>

text \<open>
  The service (\<^verbatim>\<open>src/app.py\<close>) is glue around three collaborators: the market-data
  provider (\<^verbatim>\<open>yf.Ticker(t).history(period=p)\<close>), the time-series library
  (\<^verbatim>\<open>SARIMAX(...).fit\<close>, \<^verbatim>\<open>model.forecast\<close>) and the data-frame library whose
  \<^verbatim>\<open>resample("M").last()\<close>, \<^verbatim>\<open>date_range\<close>, \<^verbatim>\<open>iloc\<close> and \<^verbatim>\<open>strftime\<close> the handlers call.
  The first two are parameters of the model (the record \<open>env\<close>); the data-frame operations
  are written out on lists of rows.

  A daily bar is indexed by its calendar day: the index entries are dates at midnight (in
  the time zone of the exchange), so a timestamp is a (year, month, day) triple. The 64-bit
  nanosecond range of the library's timestamps (years 1677 to 2262) is not modelled, and
  the frequency alias \<^verbatim>\<open>"M"\<close> is read as month end, as the library versions that accept it do.
\<close>

datatype timestamp = Timestamp (year: nat) (month: nat) (day: nat)

text \<open>A float of the series: \<open>NaN\<close> is the missing value, \<open>Num v\<close> a price.\<close>

datatype 'v pyfloat = NaN | Num 'v

type_synonym 'v series = "(timestamp \<times> 'v pyfloat) list"

text \<open>A Python exception (an instance of \<^verbatim>\<open>Exception\<close>): its class and what \<^verbatim>\<open>str(e)\<close> gives.\<close>

datatype exn = Exn (exn_class: string) (py_str: string)

text \<open>The value handed to \<^verbatim>\<open>jsonify\<close>, and the response of a handler with its HTTP status.\<close>

datatype 'v json =
    JNum "'v pyfloat"
  | JStr string
  | JArr "'v json list"
  | JObj "(string \<times> 'v json) list"

datatype 'v response = Response (status: nat) (body: "'v json")

text \<open>
  Modelled from the spec: the structured logger \<^verbatim>\<open>utils.logging.logger\<close> is not among the
  sources. The spec gives it as \<^verbatim>\<open>info(msg, fields)\<close> and \<^verbatim>\<open>error(msg, fields)\<close>; here
  a call appends one entry to the process log.
\<close>

datatype level = INFO | ERROR

datatype log_entry = Log level string "(string \<times> string) list"

type_synonym log = "log_entry list"

definition logger_info :: "string \<Rightarrow> (string \<times> string) list \<Rightarrow> log \<Rightarrow> log" where
  "logger_info msg extra lg = lg @ [Log INFO msg extra]"

definition logger_error :: "string \<Rightarrow> log \<Rightarrow> log" where
  "logger_error msg lg = lg @ [Log ERROR msg []]"

text \<open>
  The external collaborators. \<open>history env t p\<close> is \<^verbatim>\<open>yf.Ticker(t).history(period=p)\<close>
  read through its \<^verbatim>\<open>Close\<close> column (which every frame of the provider has): the rows of
  (date, close), or the exception raised. A frame is \<^verbatim>\<open>empty\<close> when it has no rows.
  \<open>sarimax_fit env data\<close> is
  \<^verbatim>\<open>SARIMAX(data, order=(1,1,1), seasonal_order=(1,1,1,12)).fit(disp=False)\<close> and
  \<open>model_forecast env m steps\<close> is \<^verbatim>\<open>m.forecast(steps=steps)\<close>.
\<close>

record ('v, 'm) env =
  history :: "string \<Rightarrow> string \<Rightarrow> exn + 'v series"
  sarimax_fit :: "'v series \<Rightarrow> exn + 'm"
  model_forecast :: "'m \<Rightarrow> nat \<Rightarrow> exn + 'v pyfloat list"

section \<open>Utility functions\<close>

text \<open>\<^verbatim>\<open>fetch_stock_data(ticker, period)\<close>, lines 13 to 22.\<close>

definition fetch_stock_data ::
  "('v, 'm) env \<Rightarrow> string \<Rightarrow> string \<Rightarrow> log \<Rightarrow> 'v series option \<times> log" where
  "fetch_stock_data env ticker period lg =
     (case history env ticker period of
        Inl e \<Rightarrow>
          (None, logger_error (''Error fetching stock data for '' @ ticker @ '': '' @ py_str e) lg)
      | Inr df \<Rightarrow> if df = [] then (None, lg) else (Some df, lg))"

text \<open>
  Calendar arithmetic. Months are counted from year 0, so that the month after December is
  January of the next year; \<open>month_end k\<close> is the last day of month number \<open>k\<close>.
\<close>

definition date_key :: "timestamp \<Rightarrow> nat \<times> nat \<times> nat" where
  "date_key d = (year d, month d, day d)"

definition is_leap :: "nat \<Rightarrow> bool" where
  "is_leap y = (y mod 4 = 0 \<and> (y mod 100 \<noteq> 0 \<or> y mod 400 = 0))"

definition days_in_month :: "nat \<Rightarrow> nat \<Rightarrow> nat" where
  "days_in_month y m =
     (if m = 2 then (if is_leap y then 29 else 28)
      else if m = 4 \<or> m = 6 \<or> m = 9 \<or> m = 11 then 30 else 31)"

definition valid_date :: "timestamp \<Rightarrow> bool" where
  "valid_date d =
     (1 \<le> month d \<and> month d \<le> 12 \<and> 1 \<le> day d \<and> day d \<le> days_in_month (year d) (month d))"

definition month_index :: "timestamp \<Rightarrow> nat" where
  "month_index d = year d * 12 + (month d - 1)"

definition month_end :: "nat \<Rightarrow> timestamp" where
  "month_end k = Timestamp (k div 12) (k mod 12 + 1) (days_in_month (k div 12) (k mod 12 + 1))"

text \<open>
  \<^verbatim>\<open>GroupBy.last\<close>: the last value of a group that is not missing, and \<open>NaN\<close> when the
  group has none (an empty bin included).
\<close>

fun last_valid :: "'v pyfloat list \<Rightarrow> 'v pyfloat" where
  "last_valid [] = NaN"
| "last_valid (x # xs) = (case last_valid xs of NaN \<Rightarrow> x | Num v \<Rightarrow> Num v)"

text \<open>
  \<^verbatim>\<open>resample_monthly(data)\<close>, lines 25 and 26: \<^verbatim>\<open>data.resample("M").last()\<close>. The time
  grouper orders the rows by timestamp (a stable sort), lays month-end bins from the month
  of the first row to the month of the last one, gaps included, and \<^verbatim>\<open>last\<close> reduces each
  bin. An empty series gives an empty series.
\<close>

definition resample_monthly :: "'v series \<Rightarrow> 'v series" where
  "resample_monthly data =
     (if data = [] then []
      else
        let xs = sort_key (\<lambda>r. date_key (fst r)) data;
            lo = month_index (fst (hd xs));
            hi = month_index (fst (last xs))
        in map (\<lambda>k. (month_end k,
                      last_valid (map snd (filter (\<lambda>r. month_index (fst r) = k) xs))))
             [lo..<Suc hi])"

text \<open>\<^verbatim>\<open>fit_sarimax(data)\<close>, lines 29 to 35, and \<^verbatim>\<open>forecast(model, steps)\<close>, lines 38 to 43.\<close>

definition fit_sarimax :: "('v, 'm) env \<Rightarrow> 'v series \<Rightarrow> log \<Rightarrow> 'm option \<times> log" where
  "fit_sarimax env data lg =
     (case sarimax_fit env data of
        Inl e \<Rightarrow> (None, logger_error (''Error fitting SARIMAX model: '' @ py_str e) lg)
      | Inr m \<Rightarrow> (Some m, lg))"

definition forecast ::
  "('v, 'm) env \<Rightarrow> 'm \<Rightarrow> nat \<Rightarrow> log \<Rightarrow> 'v pyfloat list option \<times> log" where
  "forecast env model steps lg =
     (case model_forecast env model steps of
        Inl e \<Rightarrow> (None, logger_error (''Error generating forecast: '' @ py_str e) lg)
      | Inr vs \<Rightarrow> (Some vs, lg))"

section \<open>Data-frame operations of the handlers\<close>

text \<open>
  \<^verbatim>\<open>df.iloc[-1]\<close> and \<^verbatim>\<open>monthly_data.index[-1]\<close>: the last value and the last index entry
  of a series; both raise \<^verbatim>\<open>IndexError\<close> on an empty one.
\<close>

definition iloc_last :: "'v series \<Rightarrow> exn + 'v pyfloat" where
  "iloc_last s =
     (if s = [] then Inl (Exn ''IndexError'' ''single positional indexer is out-of-bounds'')
      else Inr (snd (last s)))"

definition index_last :: "'v series \<Rightarrow> exn + timestamp" where
  "index_last s =
     (if s = [] then Inl (Exn ''IndexError'' ''index -1 is out of bounds for axis 0 with size 0'')
      else Inr (fst (last s)))"

text \<open>
  \<^verbatim>\<open>pd.date_range(start, periods=n, freq="M")\<close>: \<open>n\<close> consecutive month ends, the first
  being the end of the month of \<open>start\<close> (\<open>start\<close> itself when it is a month end).
\<close>

definition date_range :: "timestamp \<Rightarrow> nat \<Rightarrow> timestamp list" where
  "date_range start periods = map month_end [month_index start..<month_index start + periods]"

text \<open>\<^verbatim>\<open>date.strftime("%d-%m-%Y")\<close>: day and month on two digits, the year on four.\<close>

definition digit_char :: "nat \<Rightarrow> char" where
  "digit_char n = ''0123456789'' ! n"

fun decimal :: "nat \<Rightarrow> string" where
  "decimal n = (if n < 10 then [digit_char n] else decimal (n div 10) @ [digit_char (n mod 10)])"

declare decimal.simps [simp del]

definition zfill :: "nat \<Rightarrow> string \<Rightarrow> string" where
  "zfill w s = replicate (w - length s) (CHR ''0'') @ s"

definition strftime :: "timestamp \<Rightarrow> string" where
  "strftime d =
     zfill 2 (decimal (day d)) @ ''-'' @ zfill 2 (decimal (month d)) @ ''-'' @
     zfill 4 (decimal (year d))"

text \<open>An element of \<^verbatim>\<open>forecast_data\<close>: the dict \<^verbatim>\<open>{"Date": ..., "Forecast": ...}\<close>.\<close>

datatype 'v forecast_entry = ForecastEntry (Date: string) (Forecast: "'v pyfloat")

definition entry_json :: "'v forecast_entry \<Rightarrow> 'v json" where
  "entry_json d = JObj [(''Date'', JStr (Date d)), (''Forecast'', JNum (Forecast d))]"

text \<open>Reading a field of a JSON object.\<close>

fun jget :: "string \<Rightarrow> 'v json \<Rightarrow> 'v json option" where
  "jget k (JObj kvs) = map_of kvs k"
| "jget k _ = None"

section \<open>Request handlers\<close>

definition invalid_ticker :: "string \<Rightarrow> 'v response" where
  "invalid_ticker ticker =
     Response 400 (JObj [(''error'', JStr (''Invalid ticker symbol: '' @ ticker))])"

text \<open>
  \<^verbatim>\<open>get_current_value(ticker)\<close>, lines 46 to 56. \<open>get_current_value_try\<close> is the body of
  the \<^verbatim>\<open>try\<close> (\<open>Inl e\<close> when it raises \<open>e\<close>) and \<open>get_current_value_except\<close> the
  \<^verbatim>\<open>except Exception as e\<close> clause. When the fetch gave \<^verbatim>\<open>None\<close>, the attribute
  access \<^verbatim>\<open>df.iloc\<close> raises \<^verbatim>\<open>AttributeError\<close>; \<open>squote\<close> puts a name between the
  single quotes of its message.
\<close>

definition squote :: "string \<Rightarrow> string" where
  "squote s = CHR 0x27 # s @ [CHR 0x27]"

definition get_current_value_try ::
  "('v, 'm) env \<Rightarrow> string \<Rightarrow> log \<Rightarrow> (exn + 'v response) \<times> log" where
  "get_current_value_try env ticker lg =
     (case fetch_stock_data env (ticker @ ''.KA'') ''5y'' lg of
        (None, lg1) \<Rightarrow>
          (Inl (Exn ''AttributeError''
                  (squote ''NoneType'' @ '' object has no attribute '' @ squote ''iloc'')), lg1)
      | (Some df, lg1) \<Rightarrow>
          (case iloc_last df of
             Inl e \<Rightarrow> (Inl e, lg1)
           | Inr current_price \<Rightarrow>
               (Inr (Response 200 (JObj [(''currentPrice'', JNum current_price)])), lg1)))"

definition get_current_value_except :: "string \<Rightarrow> exn \<Rightarrow> log \<Rightarrow> 'v response \<times> log" where
  "get_current_value_except ticker e lg =
     (invalid_ticker ticker,
      logger_error (''Error fetching current value for '' @ ticker @ '': '' @ py_str e) lg)"

definition get_current_value :: "('v, 'm) env \<Rightarrow> string \<Rightarrow> log \<Rightarrow> 'v response \<times> log" where
  "get_current_value env ticker lg =
     (case get_current_value_try env ticker
             (logger_info (''Fetching current value for ticker: '' @ ticker)
                [(''logField'', ''current-value'')] lg) of
        (Inr r, lg1) \<Rightarrow> (r, lg1)
      | (Inl e, lg1) \<Rightarrow> get_current_value_except ticker e lg1)"

text \<open>
  \<^verbatim>\<open>get_forecast(ticker)\<close>, lines 59 to 96: \<open>get_forecast_try\<close> is the body of the
  \<^verbatim>\<open>try\<close>, \<open>get_forecast_except\<close> the \<^verbatim>\<open>except Exception as e\<close> clause, and
  \<open>forecast_response\<close> the success response that lines 77 to 93 build.
\<close>

definition forecast_response ::
  "'v pyfloat \<Rightarrow> 'v series \<Rightarrow> timestamp \<Rightarrow> nat \<Rightarrow> 'v pyfloat list \<Rightarrow> 'v response" where
  "forecast_response current_price monthly_data start forecast_steps future_forecast =
     (let future_dates = drop 1 (date_range start (forecast_steps + 1));
          forecast_data =
            map (\<lambda>(d, v). ForecastEntry (strftime d) v) (zip future_dates future_forecast);
          historical_dates = map (\<lambda>r. strftime (fst r)) monthly_data;
          historical_values = map snd monthly_data
      in Response 200 (JObj
           [(''currentPrice'', JNum current_price),
            (''forecast'', JArr (map entry_json forecast_data)),
            (''historicalDates'', JArr (map JStr historical_dates)),
            (''historicalValues'', JArr (map JNum historical_values)),
            (''forecastDates'', JArr (map (\<lambda>d. JStr (Date d)) forecast_data)),
            (''forecastValues'', JArr (map (\<lambda>d. JNum (Forecast d)) forecast_data))]))"

definition get_forecast_try ::
  "('v, 'm) env \<Rightarrow> string \<Rightarrow> log \<Rightarrow> (exn + 'v response) \<times> log" where
  "get_forecast_try env ticker lg =
     (case fetch_stock_data env (ticker @ ''.KA'') ''5y'' lg of
        (None, lg1) \<Rightarrow> (Inr (invalid_ticker ticker), lg1)
      | (Some df, lg1) \<Rightarrow>
          (case iloc_last df of
             Inl e \<Rightarrow> (Inl e, lg1)
           | Inr current_price \<Rightarrow>
               (let monthly_data = resample_monthly df in
                case fit_sarimax env monthly_data lg1 of
                  (None, lg2) \<Rightarrow>
                    (Inr (Response 500
                       (JObj [(''error'', JStr ''Failed to fit forecasting model'')])), lg2)
                | (Some model, lg2) \<Rightarrow>
                    (let forecast_steps = 6 in
                     case forecast env model forecast_steps lg2 of
                       (None, lg3) \<Rightarrow>
                         (Inr (Response 500
                            (JObj [(''error'', JStr ''Failed to generate forecast'')])), lg3)
                     | (Some future_forecast, lg3) \<Rightarrow>
                         (case index_last monthly_data of
                            Inl e \<Rightarrow> (Inl e, lg3)
                          | Inr start \<Rightarrow>
                              (Inr (forecast_response current_price monthly_data start
                                      forecast_steps future_forecast), lg3))))))"

definition get_forecast_except :: "string \<Rightarrow> exn \<Rightarrow> log \<Rightarrow> 'v response \<times> log" where
  "get_forecast_except ticker e lg =
     (Response 500 (JObj [(''error'', JStr (py_str e))]),
      logger_error (''Error in forecast for '' @ ticker @ '': '' @ py_str e) lg)"

definition get_forecast :: "('v, 'm) env \<Rightarrow> string \<Rightarrow> log \<Rightarrow> 'v response \<times> log" where
  "get_forecast env ticker lg =
     (case get_forecast_try env ticker
             (logger_info (''Generating forecast for ticker: '' @ ticker)
                [(''logField'', ''forecast'')] lg) of
        (Inr r, lg1) \<Rightarrow> (r, lg1)
      | (Inl e, lg1) \<Rightarrow> get_forecast_except ticker e lg1)"

section \<open>Sample collaborators\<close>

text \<open>
  A provider that knows four tickers and is unreachable for every other one, a fit that
  needs two monthly observations and yields their number as the model, and a forecast
  that fails below four observations and otherwise gives as many values as asked for.
\<close>

definition sample_rows :: "real series" where
  "sample_rows =
     [(Timestamp 2024 1 2, Num 100), (Timestamp 2024 1 3, Num 102),
      (Timestamp 2024 1 4, Num 101), (Timestamp 2024 1 31, Num 105),
      (Timestamp 2024 3 5, Num 107), (Timestamp 2024 4 1, Num 110)]"

definition sample_env :: "(real, nat) env" where
  "sample_env =
     \<lparr>history = (\<lambda>t p.
         if t = ''ABC.KA'' then Inr sample_rows
         else if t = ''TWO.KA'' then Inr (take 2 (drop 3 sample_rows))
         else if t = ''ONE.KA'' then Inr (take 4 sample_rows)
         else if t = ''NONE.KA'' then Inr []
         else Inl (Exn ''ConnectionError'' ''provider unreachable'')),
       sarimax_fit = (\<lambda>s.
         if length s < 2 then Inl (Exn ''ValueError'' ''too few observations'')
         else Inr (length s)),
       model_forecast = (\<lambda>m steps.
         if m < 4 then Inl (Exn ''ValueError'' ''forecast failed'')
         else Inr (map (\<lambda>i. Num (110 + real i)) [0..<steps]))\<rparr>"



section \<open>Vocabulary of the properties\<close>

text \<open>A series with one row per month of a range of months, each at its month end.\<close>

definition monthly_rows :: "(nat \<Rightarrow> 'v pyfloat) \<Rightarrow> nat \<Rightarrow> nat \<Rightarrow> 'v series" where
  "monthly_rows g lo hi = map (\<lambda>k. (month_end k, g k)) [lo..<Suc hi]"

text \<open>
  The rows of a series in chronological order (the order the time grouper works in), and
  those of them that fall in month number \<open>k\<close>.
\<close>

definition chronological :: "'v series \<Rightarrow> 'v series" where
  "chronological s = sort_key (\<lambda>r. date_key (fst r)) s"

definition rows_of_month :: "nat \<Rightarrow> 'v series \<Rightarrow> 'v series" where
  "rows_of_month k s = filter (\<lambda>r. month_index (fst r) = k) (chronological s)"

text \<open>The spec's scenario: four daily closes within January 2024.\<close>

definition example_month :: "real series" where
  "example_month =
     [(Timestamp 2024 1 2, Num 100), (Timestamp 2024 1 3, Num 102),
      (Timestamp 2024 1 4, Num 101), (Timestamp 2024 1 5, Num 105)]"

text \<open>Two daily rows of one month, the close of the later one missing.\<close>

definition nan_last_rows :: "real series" where
  "nan_last_rows = [(Timestamp 2024 1 30, Num 100), (Timestamp 2024 1 31, NaN)]"

text \<open>
  Chronological order of timestamps, the month ends of the calendar, and the month end that
  follows the month of a timestamp.
\<close>

definition ts_less :: "timestamp \<Rightarrow> timestamp \<Rightarrow> bool" where
  "ts_less a b = (date_key a < date_key b)"

definition is_month_end :: "timestamp \<Rightarrow> bool" where
  "is_month_end d = (valid_date d \<and> day d = days_in_month (year d) (month d))"

definition following_month_end :: "timestamp \<Rightarrow> timestamp" where
  "following_month_end d = month_end (Suc (month_index d))"

text \<open>
  The list \<^verbatim>\<open>forecast_data\<close> that \<open>forecast_response\<close> builds from the last
  historical month end and the forecast values.
\<close>

definition forecast_entries :: "timestamp \<Rightarrow> 'v pyfloat list \<Rightarrow> 'v forecast_entry list" where
  "forecast_entries start vs =
     map (\<lambda>(d, v). ForecastEntry (strftime d) v) (zip (drop 1 (date_range start 7)) vs)"

text \<open>
  Reading a date of the format \<^verbatim>\<open>%d-%m-%Y\<close> back: two digits, a dash, two digits, a
  dash, and the digits of the year.
\<close>

definition digit_val :: "char \<Rightarrow> nat" where
  "digit_val c = of_char c - 48"

definition parse_nat :: "string \<Rightarrow> nat" where
  "parse_nat s = foldl (\<lambda>a c. 10 * a + digit_val c) 0 s"

definition strptime :: "string \<Rightarrow> timestamp" where
  "strptime s =
     Timestamp (parse_nat (drop 6 s)) (parse_nat (take 2 (drop 3 s))) (parse_nat (take 2 s))"

section \<open>The fetcher\<close>

lemma history_sample_env:
  "history sample_env ''ABC.KA'' ''5y'' = Inr sample_rows"
  "history sample_env ''NONE.KA'' ''5y'' = Inr []"
  "history sample_env ''XYZ.KA'' ''5y'' = Inl (Exn ''ConnectionError'' ''provider unreachable'')"
  by (simp_all add: sample_env_def)

lemma sample_rows_not_Nil: "sample_rows \<noteq> []"
  by (simp add: sample_rows_def)

text \<open>
  C3, as the code has it. \<open>fetch_stock_data\<close> returns a value in every case (its result
  has no exception component: the \<^verbatim>\<open>except Exception\<close> clause covers the whole body).
  When the provider call raises, the result is \<^verbatim>\<open>None\<close> and one error entry naming the
  ticker and the error is logged; when the provider returns no rows, the result is
  \<^verbatim>\<open>None\<close> and nothing is logged; otherwise the result is the close series, and nothing
  is logged.
\<close>

theorem fetch_stock_data_result:
  "(\<forall>e. history env ticker period = Inl e \<longrightarrow>
       fetch_stock_data env ticker period lg =
         (None,
          lg @ [Log ERROR (''Error fetching stock data for '' @ ticker @ '': '' @ py_str e) []])) \<and>
   (history env ticker period = Inr [] \<longrightarrow>
       fetch_stock_data env ticker period lg = (None, lg)) \<and>
   (\<forall>df. history env ticker period = Inr df \<longrightarrow> df \<noteq> [] \<longrightarrow>
       fetch_stock_data env ticker period lg = (Some df, lg))"
  by (simp add: fetch_stock_data_def logger_error_def)

theorem fetch_stock_data_result_witness:
  "fetch_stock_data sample_env ''XYZ.KA'' ''5y'' [] =
     (None, [Log ERROR ''Error fetching stock data for XYZ.KA: provider unreachable'' []]) \<and>
   fetch_stock_data sample_env ''NONE.KA'' ''5y'' [] = (None, []) \<and>
   fetch_stock_data sample_env ''ABC.KA'' ''5y'' [] = (Some sample_rows, [])"
  using fetch_stock_data_result [of sample_env "''XYZ.KA''" "''5y''" "[]"]
    fetch_stock_data_result [of sample_env "''NONE.KA''" "''5y''" "[]"]
    fetch_stock_data_result [of sample_env "''ABC.KA''" "''5y''" "[]"]
    history_sample_env sample_rows_not_Nil
  by simp

text \<open>
  C3, as the spec states it, fails where the provider returns no rows: the fetch returns
  \<^verbatim>\<open>None\<close> and the log is left as it was, so no failure is logged.
\<close>

theorem fetch_stock_data_no_rows_not_logged:
  "history sample_env ''NONE.KA'' ''5y'' = Inr [] \<and>
   fetch_stock_data sample_env ''NONE.KA'' ''5y'' [] = (None, [])"
  by (simp add: sample_env_def fetch_stock_data_def)

section \<open>The current-value endpoint\<close>

text \<open>
  C1. When the provider returns a non-empty daily series for the ticker (queried with the
  suffix \<^verbatim>\<open>.KA\<close>), the current-value endpoint responds 200 with the body
  \<^verbatim>\<open>{"currentPrice": p}\<close>, \<open>p\<close> being the last element of the series.
\<close>

theorem get_current_value_last_close:
  assumes "history env (ticker @ ''.KA'') ''5y'' = Inr df" and "df \<noteq> []"
  shows "fst (get_current_value env ticker lg) =
           Response 200 (JObj [(''currentPrice'', JNum (snd (last df)))])"
  using assms
  by (simp add: get_current_value_def get_current_value_try_def fetch_stock_data_def
      iloc_last_def)

theorem get_current_value_last_close_witness:
  "fst (get_current_value sample_env ''ABC'' []) =
     Response 200 (JObj [(''currentPrice'', JNum (Num 110))])"
  using get_current_value_last_close [of sample_env "''ABC''" sample_rows "[]"]
    history_sample_env(1) sample_rows_not_Nil
  by (simp add: sample_rows_def)

text \<open>
  C10. Whatever the provider does, the current-value endpoint answers either 200 with the
  one-key body \<^verbatim>\<open>{"currentPrice": p}\<close> or 400 with the one-key body
  \<^verbatim>\<open>{"error": "Invalid ticker symbol: <ticker>"}\<close>; the status is never 500; and the
  \<^verbatim>\<open>except\<close> clause gives that same 400 response for every exception, so the response
  does not tell a failed fetch from any other failure.
\<close>

theorem get_current_value_shapes:
  fixes env :: "('v, 'm) env"
  shows
  "((\<exists>p. fst (get_current_value env ticker lg) =
           Response 200 (JObj [(''currentPrice'', JNum p)])) \<or>
    fst (get_current_value env ticker lg) =
      Response 400 (JObj [(''error'', JStr (''Invalid ticker symbol: '' @ ticker))])) \<and>
   status (fst (get_current_value env ticker lg)) \<noteq> 500 \<and>
   fst (get_current_value_except ticker e lg' :: 'v response \<times> log) =
     Response 400 (JObj [(''error'', JStr (''Invalid ticker symbol: '' @ ticker))])"
  by (simp add: get_current_value_def get_current_value_try_def get_current_value_except_def
      fetch_stock_data_def iloc_last_def invalid_ticker_def split: sum.splits)

section \<open>The resampler\<close>

lemma month_index_month_end: "month_index (month_end k) = k"
  by (simp add: month_index_def month_end_def)

lemma div_mod_lex:
  fixes j k :: nat
  assumes "j < k"
  shows "j div 12 < k div 12 \<or> (j div 12 = k div 12 \<and> j mod 12 < k mod 12)"
proof -
  have le: "j div 12 \<le> k div 12" using assms by (simp add: div_le_mono)
  have "j mod 12 < k mod 12" if "j div 12 = k div 12"
    using assms that div_mult_mod_eq [of j 12] div_mult_mod_eq [of k 12] by linarith
  with le show ?thesis by linarith
qed

lemma date_key_month_end_less:
  assumes "j < k" shows "date_key (month_end j) < date_key (month_end k)"
  using div_mod_lex [OF assms] by (auto simp add: date_key_def month_end_def less_prod_def)

lemma filter_eq_upt: "filter (\<lambda>j. j = k) [a..<b] = (if a \<le> k \<and> k < b then [k] else [])"
  by (induction b) auto

lemma sorted_monthly_rows: "sorted (map (\<lambda>r. date_key (fst r)) (monthly_rows g lo hi))"
proof -
  have "sorted_wrt (\<lambda>j k. date_key (month_end j) \<le> date_key (month_end k)) [lo..<Suc hi]"
    by (rule sorted_wrt_mono_rel [OF _ sorted_wrt_upt]) (simp add: date_key_month_end_less less_imp_le)
  then show ?thesis
    by (simp add: monthly_rows_def sorted_wrt_map comp_def)
qed

lemma filter_monthly_rows:
  assumes "lo \<le> k" and "k \<le> hi"
  shows "filter (\<lambda>r. month_index (fst r) = k) (monthly_rows g lo hi) = [(month_end k, g k)]"
  using assms
  by (simp add: monthly_rows_def filter_map comp_def month_index_month_end filter_eq_upt)

lemma resample_monthly_rows: "resample_monthly (monthly_rows g lo hi) = monthly_rows g lo hi"
proof (cases "lo \<le> hi")
  case False
  then show ?thesis by (simp add: monthly_rows_def resample_monthly_def)
next
  case True
  let ?m = "monthly_rows g lo hi"
  have ne: "?m \<noteq> []" using True by (simp add: monthly_rows_def)
  have srt: "sort_key (\<lambda>r. date_key (fst r)) ?m = ?m"
    by (rule sort_key_id_if_sorted) (rule sorted_monthly_rows)
  have upt_ne: "[lo..<Suc hi] \<noteq> []" using True by simp
  have h: "month_index (fst (hd ?m)) = lo"
    using True by (simp add: monthly_rows_def hd_map upt_ne month_index_month_end del: upt_Suc)
  have l: "month_index (fst (last ?m)) = hi"
    using True by (simp add: monthly_rows_def last_map month_index_month_end)
  have "map (\<lambda>k. (month_end k, last_valid (map snd (filter (\<lambda>r. month_index (fst r) = k) ?m))))
          [lo..<Suc hi] = map (\<lambda>k. (month_end k, g k)) [lo..<Suc hi]"
  proof (rule map_cong [OF refl])
    fix k assume "k \<in> set [lo..<Suc hi]"
    then have "lo \<le> k" and "k \<le> hi" by auto
    then show "(month_end k, last_valid (map snd (filter (\<lambda>r. month_index (fst r) = k) ?m)))
        = (month_end k, g k)"
      by (simp add: filter_monthly_rows)
  qed
  then have "resample_monthly ?m = map (\<lambda>k. (month_end k, g k)) [lo..<Suc hi]"
    using ne by (simp add: resample_monthly_def srt h l Let_def del: upt_Suc)
  then show ?thesis by (simp add: monthly_rows_def)
qed

lemma resample_monthly_eq_monthly_rows:
  assumes "s \<noteq> []"
  shows "resample_monthly s =
     monthly_rows
       (\<lambda>k. last_valid (map snd (filter (\<lambda>r. month_index (fst r) = k)
                                      (sort_key (\<lambda>r. date_key (fst r)) s))))
       (month_index (fst (hd (sort_key (\<lambda>r. date_key (fst r)) s))))
       (month_index (fst (last (sort_key (\<lambda>r. date_key (fst r)) s))))"
  unfolding resample_monthly_def monthly_rows_def Let_def using assms by (simp only: if_False)

text \<open>
  C7. Resampling is idempotent: resampling a resampled series changes nothing. This holds
  for every series, so in particular for one that is already monthly (at most one row per
  calendar month, dated at the month end).
\<close>

theorem resample_monthly_idempotent:
  "resample_monthly (resample_monthly s) = resample_monthly s"
proof (cases "s = []")
  case True
  then show ?thesis by (simp add: resample_monthly_def)
next
  case False
  show ?thesis
    unfolding resample_monthly_eq_monthly_rows [OF False] by (rule resample_monthly_rows)
qed

lemma month_index_mono:
  assumes "date_key a \<le> date_key b" and "month a \<le> 12"
  shows "month_index a \<le> month_index b"
proof -
  from assms(1) have "year a < year b \<or> (year a = year b \<and> month a \<le> month b)"
    by (auto simp add: date_key_def less_eq_prod_def less_prod_def)
  then show ?thesis
  proof
    assume "year a < year b"
    then have "Suc (year a) * 12 \<le> year b * 12" by (simp only: Suc_leI mult_le_mono1)
    with assms(2) show ?thesis by (simp add: month_index_def)
  next
    assume "year a = year b \<and> month a \<le> month b"
    then show ?thesis by (simp add: month_index_def diff_le_mono)
  qed
qed

lemma sorted_hd_le:
  assumes "sorted (map f xs)" and "x \<in> set xs"
  shows "f (hd xs) \<le> f x"
  using assms by (cases xs) auto

lemma sorted_le_last:
  assumes "sorted (map f xs)" and "x \<in> set xs"
  shows "f x \<le> f (last xs)"
  using assms by (induction xs) (auto split: if_splits)

lemma map_of_monthly_rows:
  assumes "lo \<le> k" and "k \<le> hi"
  shows "map_of (monthly_rows g lo hi) (month_end k) = Some (g k)"
proof -
  have inj: "month_end i = month_end j \<Longrightarrow> i = j" for i j
    by (metis month_index_month_end)
  have *: "map_of (map (\<lambda>j. (month_end j, g j)) js) (month_end k) = Some (g k)"
    if "k \<in> set js" for js
    using that by (induction js) (auto dest!: inj)
  have "k \<in> set [lo..<Suc hi]" using assms by auto
  from * [OF this] show ?thesis by (simp only: monthly_rows_def)
qed

lemma distinct_monthly_rows: "distinct (map fst (monthly_rows g lo hi))"
proof -
  have "inj_on month_end A" for A
    by (rule inj_on_inverseI [where g = month_index]) (rule month_index_month_end)
  then show ?thesis
    by (simp add: monthly_rows_def comp_def distinct_map del: upt_Suc)
qed

lemma last_valid_last:
  assumes "xs \<noteq> []" and "last xs = Num v"
  shows "last_valid xs = Num v"
  using assms by (induction xs) (auto split: pyfloat.splits if_splits)

lemma sorted_chronological: "sorted (map (\<lambda>r. date_key (fst r)) (chronological s))"
  by (simp add: chronological_def)

lemma set_chronological: "set (chronological s) = set s"
  by (simp add: chronological_def)

lemma chronological_not_Nil: "s \<noteq> [] \<Longrightarrow> chronological s \<noteq> []"
  by (metis set_chronological set_empty)

lemma month_index_bounds:
  assumes valid: "\<forall>q\<in>set s. valid_date (fst q)" and r: "r \<in> set s"
  shows "month_index (fst (hd (chronological s))) \<le> month_index (fst r)"
    and "month_index (fst r) \<le> month_index (fst (last (chronological s)))"
proof -
  let ?xs = "chronological s"
  have "s \<noteq> []" using r by auto
  then have ne: "?xs \<noteq> []" by (rule chronological_not_Nil)
  have rx: "r \<in> set ?xs" using r by (simp add: set_chronological)
  have "hd ?xs \<in> set s" using hd_in_set [OF ne] by (simp add: set_chronological)
  then have m1: "month (fst (hd ?xs)) \<le> 12" using valid by (simp add: valid_date_def)
  have m2: "month (fst r) \<le> 12" using valid r by (simp add: valid_date_def)
  have "date_key (fst (hd ?xs)) \<le> date_key (fst r)"
    by (rule sorted_hd_le [OF sorted_chronological rx])
  then show "month_index (fst (hd ?xs)) \<le> month_index (fst r)"
    using m1 by (rule month_index_mono)
  have "date_key (fst r) \<le> date_key (fst (last ?xs))"
    by (rule sorted_le_last [OF sorted_chronological rx])
  then show "month_index (fst r) \<le> month_index (fst (last ?xs))"
    using m2 by (rule month_index_mono)
qed

lemma resample_monthly_chronological:
  assumes "s \<noteq> []"
  shows "resample_monthly s =
     monthly_rows (\<lambda>k. last_valid (map snd (rows_of_month k s)))
       (month_index (fst (hd (chronological s)))) (month_index (fst (last (chronological s))))"
  unfolding rows_of_month_def chronological_def by (rule resample_monthly_eq_monthly_rows [OF assms])

lemma resample_monthly_month:
  assumes valid: "\<forall>q\<in>set s. valid_date (fst q)" and r: "r \<in> set s"
  shows "map_of (resample_monthly s) (month_end (month_index (fst r))) =
           Some (last_valid (map snd (rows_of_month (month_index (fst r)) s)))"
proof -
  have ne: "s \<noteq> []" using r by auto
  show ?thesis
    unfolding resample_monthly_chronological [OF ne]
    by (rule map_of_monthly_rows [OF month_index_bounds [OF valid r]])
qed

lemma distinct_resample_monthly: "distinct (map fst (resample_monthly s))"
proof (cases "s = []")
  case True
  then show ?thesis by (simp add: resample_monthly_def)
next
  case False
  show ?thesis
    unfolding resample_monthly_eq_monthly_rows [OF False] by (rule distinct_monthly_rows)
qed

lemma rows_of_month_not_Nil:
  assumes "r \<in> set s"
  shows "rows_of_month (month_index (fst r)) s \<noteq> []"
proof -
  have "r \<in> set (rows_of_month (month_index (fst r)) s)"
    using assms by (simp add: rows_of_month_def set_chronological)
  then show ?thesis by auto
qed

lemma resample_monthly_not_Nil:
  assumes valid: "\<forall>q\<in>set s. valid_date (fst q)" and ne: "s \<noteq> []"
  shows "resample_monthly s \<noteq> []"
proof -
  obtain r where r: "r \<in> set s" using ne by (cases s) auto
  from resample_monthly_month [OF valid r] show ?thesis by auto
qed

lemma last_monthly_rows:
  assumes "lo \<le> hi"
  shows "fst (last (monthly_rows g lo hi)) = month_end hi"
  using assms by (simp add: monthly_rows_def)

lemma last_resample_monthly:
  assumes valid: "\<forall>q\<in>set s. valid_date (fst q)" and ne: "s \<noteq> []"
  shows "fst (last (resample_monthly s)) = month_end (month_index (fst (last (chronological s))))"
proof -
  have l: "last (chronological s) \<in> set s"
    using last_in_set [OF chronological_not_Nil [OF ne]] by (simp add: set_chronological)
  have "month_index (fst (hd (chronological s))) \<le> month_index (fst (last (chronological s)))"
    by (rule month_index_bounds(1) [OF valid l])
  then show ?thesis
    unfolding resample_monthly_chronological [OF ne] by (rule last_monthly_rows)
qed

lemmas calendar_defs =
  date_key_def month_index_def month_end_def days_in_month_def is_leap_def valid_date_def
  less_eq_prod_def less_prod_def

lemma resample_monthly_example_month:
  "resample_monthly example_month = [(Timestamp 2024 1 31, Num 105)]"
  by (simp add: resample_monthly_def example_month_def calendar_defs)

lemma resample_monthly_sample_rows:
  "resample_monthly sample_rows =
     [(Timestamp 2024 1 31, Num 105), (Timestamp 2024 2 29, NaN),
      (Timestamp 2024 3 31, Num 107), (Timestamp 2024 4 30, Num 110)]"
  by (simp add: resample_monthly_def sample_rows_def calendar_defs)

text \<open>
  C8, as the spec states it, fails on a month whose chronologically last row has a missing
  close: \<^verbatim>\<open>last\<close> skips missing values, so the month keeps the earlier close 100 and
  not the value of its last row.
\<close>

theorem resample_monthly_nan_last:
  "resample_monthly nan_last_rows = [(Timestamp 2024 1 31, Num 100)] \<and>
   last nan_last_rows = (Timestamp 2024 1 31, NaN)"
  by (simp add: resample_monthly_def nan_last_rows_def calendar_defs)

text \<open>
  C8, as the code has it. \<open>resample_monthly\<close> is a total function: it has no error
  path, and an empty series gives an empty series. The scenario of the spec, the closes
  100, 102, 101, 105 within one month, gives the single row 105 at the month end. For
  every series \<open>s\<close> of valid dates and every row \<open>r\<close> of it, the result has one row per
  month end, and the row at the end of the month of \<open>r\<close> holds the last close that is not
  missing among the rows of that month in chronological order; so it holds the close of
  the chronologically last row of the month whenever that close is present.
\<close>

theorem resample_monthly_groups:
  "resample_monthly ([] :: 'v series) = [] \<and>
   resample_monthly example_month = [(Timestamp 2024 1 31, Num 105)] \<and>
   (\<forall>(s :: 'v series) r.
      (\<forall>q\<in>set s. valid_date (fst q)) \<longrightarrow> r \<in> set s \<longrightarrow>
        distinct (map fst (resample_monthly s)) \<and>
        map_of (resample_monthly s) (month_end (month_index (fst r))) =
          Some (last_valid (map snd (rows_of_month (month_index (fst r)) s))) \<and>
        (\<forall>v. snd (last (rows_of_month (month_index (fst r)) s)) = Num v \<longrightarrow>
           map_of (resample_monthly s) (month_end (month_index (fst r))) = Some (Num v)))"
proof (intro conjI allI impI)
  show "resample_monthly ([] :: 'v series) = []"
    by (simp add: resample_monthly_def)
  show "resample_monthly example_month = [(Timestamp 2024 1 31, Num 105)]"
    by (rule resample_monthly_example_month)
next
  fix s :: "'v series" and r :: "timestamp \<times> 'v pyfloat"
  show "distinct (map fst (resample_monthly s))"
    by (rule distinct_resample_monthly)
next
  fix s :: "'v series" and r :: "timestamp \<times> 'v pyfloat"
  assume "\<forall>q\<in>set s. valid_date (fst q)" and "r \<in> set s"
  then show "map_of (resample_monthly s) (month_end (month_index (fst r))) =
          Some (last_valid (map snd (rows_of_month (month_index (fst r)) s)))"
    by (rule resample_monthly_month)
next
  fix s :: "'v series" and r :: "timestamp \<times> 'v pyfloat" and v :: 'v
  let ?rows = "rows_of_month (month_index (fst r)) s"
  assume valid: "\<forall>q\<in>set s. valid_date (fst q)" and r: "r \<in> set s"
    and v: "snd (last ?rows) = Num v"
  have ne: "?rows \<noteq> []" by (rule rows_of_month_not_Nil [OF r])
  then have "last (map snd ?rows) = Num v" using v by (simp add: last_map)
  with ne have "last_valid (map snd ?rows) = Num v" by (simp add: last_valid_last)
  with resample_monthly_month [OF valid r]
  show "map_of (resample_monthly s) (month_end (month_index (fst r))) = Some (Num v)"
    by simp
qed

theorem resample_monthly_groups_witness:
  "map_of (resample_monthly sample_rows) (Timestamp 2024 1 31) = Some (Num 105) \<and>
   distinct (map fst (resample_monthly sample_rows))"
proof -
  let ?r = "(Timestamp 2024 1 3, Num (102 :: real))"
  have valid: "\<forall>q\<in>set sample_rows. valid_date (fst q)"
    by (simp add: sample_rows_def calendar_defs)
  have r: "?r \<in> set sample_rows"
    by (simp add: sample_rows_def)
  have l: "snd (last (rows_of_month (month_index (fst ?r)) sample_rows)) = Num 105"
    by (simp add: rows_of_month_def chronological_def sample_rows_def calendar_defs)
  have m: "month_end (month_index (fst ?r)) = Timestamp 2024 1 31"
    by (simp add: calendar_defs)
  from resample_monthly_groups [where 'v = real] valid r l m show ?thesis
    by (metis (no_types, lifting))
qed

section \<open>The forecast endpoint\<close>

lemma get_forecast_fetched:
  assumes "history env (ticker @ ''.KA'') ''5y'' = Inr df" and "df \<noteq> []"
  shows "fst (get_forecast env ticker lg) =
     (case sarimax_fit env (resample_monthly df) of
        Inl e \<Rightarrow> Response 500 (JObj [(''error'', JStr ''Failed to fit forecasting model'')])
      | Inr m \<Rightarrow>
          (case model_forecast env m 6 of
             Inl e \<Rightarrow> Response 500 (JObj [(''error'', JStr ''Failed to generate forecast'')])
           | Inr vs \<Rightarrow>
               (case index_last (resample_monthly df) of
                  Inl e \<Rightarrow> Response 500 (JObj [(''error'', JStr (py_str e))])
                | Inr start \<Rightarrow>
                    forecast_response (snd (last df)) (resample_monthly df) start 6 vs)))"
  using assms
  by (simp add: get_forecast_def get_forecast_try_def fetch_stock_data_def iloc_last_def
      fit_sarimax_def forecast_def get_forecast_except_def Let_def split: sum.splits)

lemma get_forecast_not_fetched:
  assumes "history env (ticker @ ''.KA'') ''5y'' = Inr [] \<or>
           (\<exists>e. history env (ticker @ ''.KA'') ''5y'' = Inl e)"
  shows "fst (get_forecast env ticker lg) = invalid_ticker ticker"
  using assms
  by (auto simp add: get_forecast_def get_forecast_try_def fetch_stock_data_def)

lemma forecast_response_fields:
  "status (forecast_response cp md start 6 vs) = 200"
  "jget ''forecast'' (body (forecast_response cp md start 6 vs)) =
     Some (JArr (map entry_json (forecast_entries start vs)))"
  "jget ''forecastDates'' (body (forecast_response cp md start 6 vs)) =
     Some (JArr (map (\<lambda>d. JStr (Date d)) (forecast_entries start vs)))"
  "jget ''forecastValues'' (body (forecast_response cp md start 6 vs)) =
     Some (JArr (map (\<lambda>d. JNum (Forecast d)) (forecast_entries start vs)))"
  "jget ''historicalDates'' (body (forecast_response cp md start 6 vs)) =
     Some (JArr (map (\<lambda>r. JStr (strftime (fst r))) md))"
  by (simp_all add: forecast_response_def forecast_entries_def Let_def comp_def)

lemma get_forecast_200:
  assumes "status (fst (get_forecast env ticker lg)) = 200"
  shows "\<exists>cp md start vs. fst (get_forecast env ticker lg) = forecast_response cp md start 6 vs"
  using assms
  by (auto simp add: get_forecast_def get_forecast_try_def get_forecast_except_def
      invalid_ticker_def fit_sarimax_def forecast_def Let_def
      split: prod.splits sum.splits option.splits)

lemma jget_entry_json:
  "jget ''Date'' (entry_json d) = Some (JStr (Date d))"
  "jget ''Forecast'' (entry_json d) = Some (JNum (Forecast d))"
  by (simp_all add: entry_json_def)

text \<open>
  C6. In every 200 response of the forecast endpoint, the array \<^verbatim>\<open>forecastDates\<close> is the
  sequence of the \<^verbatim>\<open>Date\<close> fields of the entries of \<^verbatim>\<open>forecast\<close>, and the array
  \<^verbatim>\<open>forecastValues\<close> the sequence of their \<^verbatim>\<open>Forecast\<close> fields.
\<close>

theorem forecast_arrays_agree:
  assumes "status (fst (get_forecast env ticker lg)) = 200"
  shows "\<exists>es ds fs.
     jget ''forecast'' (body (fst (get_forecast env ticker lg))) = Some (JArr es) \<and>
     jget ''forecastDates'' (body (fst (get_forecast env ticker lg))) = Some (JArr ds) \<and>
     jget ''forecastValues'' (body (fst (get_forecast env ticker lg))) = Some (JArr fs) \<and>
     map (jget ''Date'') es = map Some ds \<and>
     map (jget ''Forecast'') es = map Some fs"
proof -
  obtain cp md start vs
    where r: "fst (get_forecast env ticker lg) = forecast_response cp md start 6 vs"
    using get_forecast_200 [OF assms] by blast
  let ?fd = "forecast_entries start vs"
  have "map (jget ''Date'') (map entry_json ?fd) = map Some (map (\<lambda>d. JStr (Date d)) ?fd)"
    and "map (jget ''Forecast'') (map entry_json ?fd) =
         map Some (map (\<lambda>d. JNum (Forecast d)) ?fd)"
    by (simp_all add: jget_entry_json comp_def)
  then show ?thesis
    unfolding r forecast_response_fields by (intro exI conjI) (rule refl | assumption)+
qed

lemma length_forecast_entries: "length (forecast_entries start vs) = min 6 (length vs)"
  by (simp add: forecast_entries_def date_range_def)

lemma index_last_resample_monthly:
  assumes "\<forall>q\<in>set df. valid_date (fst q)" and "df \<noteq> []"
  shows "index_last (resample_monthly df) = Inr (fst (last (resample_monthly df)))"
  using resample_monthly_not_Nil [OF assms] by (simp add: index_last_def)

lemma get_forecast_success:
  assumes hist: "history env (ticker @ ''.KA'') ''5y'' = Inr df" and ne: "df \<noteq> []"
    and valid: "\<forall>q\<in>set df. valid_date (fst q)"
    and fit: "sarimax_fit env (resample_monthly df) = Inr m"
    and fc: "model_forecast env m 6 = Inr vs"
  shows "fst (get_forecast env ticker lg) =
           forecast_response (snd (last df)) (resample_monthly df)
             (fst (last (resample_monthly df))) 6 vs"
  by (simp add: get_forecast_fetched [OF hist ne] fit fc index_last_resample_monthly [OF valid ne])

text \<open>
  C4. When the fetch gives a series (of valid dates), the fit succeeds and the forecast
  succeeds, returning the six point estimates asked of it, the forecast endpoint answers
  200 and the arrays \<^verbatim>\<open>forecast\<close>, \<^verbatim>\<open>forecastDates\<close> and \<^verbatim>\<open>forecastValues\<close> each
  have length 6.
\<close>

theorem forecast_has_six_entries:
  assumes hist: "history env (ticker @ ''.KA'') ''5y'' = Inr df" and ne: "df \<noteq> []"
    and valid: "\<forall>q\<in>set df. valid_date (fst q)"
    and fit: "sarimax_fit env (resample_monthly df) = Inr m"
    and fc: "model_forecast env m 6 = Inr vs"
    and len: "length vs = 6"
  shows "status (fst (get_forecast env ticker lg)) = 200 \<and>
     (\<exists>es ds fs.
        jget ''forecast'' (body (fst (get_forecast env ticker lg))) = Some (JArr es) \<and>
        jget ''forecastDates'' (body (fst (get_forecast env ticker lg))) = Some (JArr ds) \<and>
        jget ''forecastValues'' (body (fst (get_forecast env ticker lg))) = Some (JArr fs) \<and>
        length es = 6 \<and> length ds = 6 \<and> length fs = 6)"
  unfolding get_forecast_success [OF hist ne valid fit fc] forecast_response_fields
  by (simp add: length_forecast_entries len)

lemma days_in_month_ge: "1 \<le> days_in_month y m"
  by (simp add: days_in_month_def)

lemma is_month_end_month_end: "is_month_end (month_end k)"
proof -
  have "k mod 12 \<le> 11" using mod_less_divisor [of 12 k] by linarith
  moreover have "Suc 0 \<le> days_in_month (k div 12) (Suc (k mod 12))"
    using days_in_month_ge [of "k div 12" "Suc (k mod 12)"] by simp
  ultimately show ?thesis
    by (simp add: is_month_end_def valid_date_def month_end_def)
qed

lemma month_end_month_index:
  assumes "is_month_end d"
  shows "month_end (month_index d) = d"
proof -
  have m: "1 \<le> month d" "month d \<le> 12" and dd: "day d = days_in_month (year d) (month d)"
    using assms by (simp_all add: is_month_end_def valid_date_def)
  have r: "month d - 1 < 12" using m by simp
  have a: "(year d * 12 + (month d - 1)) div 12 = year d"
    using r by simp
  have "(year d * 12 + (month d - 1)) mod 12 = month d - 1"
    using r by simp
  then have b: "(year d * 12 + (month d - 1)) mod 12 + 1 = month d"
    using m by simp
  show ?thesis
    by (simp only: month_end_def month_index_def a b dd [symmetric] timestamp.collapse)
qed

lemma ts_less_month_end: "j < k \<Longrightarrow> ts_less (month_end j) (month_end k)"
  by (simp add: ts_less_def date_key_month_end_less)

lemma ts_less_month_end_iff: "ts_less (month_end j) (month_end k) \<longleftrightarrow> j < k"
proof
  assume l: "ts_less (month_end j) (month_end k)"
  show "j < k"
  proof (rule ccontr)
    assume "\<not> j < k"
    then have "k = j \<or> k < j" by auto
    then have "date_key (month_end k) \<le> date_key (month_end j)"
      using date_key_month_end_less [of k j] by auto
    with l show False by (simp add: ts_less_def)
  qed
qed (rule ts_less_month_end)

text \<open>
  \<open>following_month_end d\<close> is the month end immediately following the month end \<open>d\<close>: it is
  a month end after \<open>d\<close>, and no month end lies strictly between the two.
\<close>

lemma following_month_end_least:
  assumes d: "is_month_end d"
  shows "is_month_end (following_month_end d)"
    and "ts_less d (following_month_end d)"
    and "is_month_end e \<Longrightarrow> ts_less d e \<Longrightarrow> \<not> ts_less e (following_month_end d)"
proof -
  show "is_month_end (following_month_end d)"
    by (simp add: following_month_end_def is_month_end_month_end)
  have "ts_less (month_end (month_index d)) (month_end (Suc (month_index d)))"
    by (rule ts_less_month_end) simp
  then show "ts_less d (following_month_end d)"
    by (simp add: following_month_end_def month_end_month_index [OF d])
  assume e: "is_month_end e" and de: "ts_less d e"
  from de have "ts_less (month_end (month_index d)) (month_end (month_index e))"
    by (simp add: month_end_month_index d e)
  then have "month_index d < month_index e" by (simp add: ts_less_month_end_iff)
  then have "\<not> month_index e < Suc (month_index d)" by simp
  then have "\<not> ts_less (month_end (month_index e)) (month_end (Suc (month_index d)))"
    by (simp only: ts_less_month_end_iff not_False_eq_True)
  then show "\<not> ts_less e (following_month_end d)"
    by (simp add: following_month_end_def month_end_month_index [OF e])
qed

lemma successively_upt:
  assumes "\<And>x. P x (Suc x)"
  shows "successively P [a..<b]"
  unfolding successively_conv_nth using assms by simp

lemma month_ends_chain:
  "list_all is_month_end (map month_end [a..<b])"
  "sorted_wrt ts_less (map month_end [a..<b])"
  "successively (\<lambda>x y. y = following_month_end x) (map month_end [a..<b])"
proof -
  show "list_all is_month_end (map month_end [a..<b])"
    by (simp add: list_all_iff is_month_end_month_end)
  show "sorted_wrt ts_less (map month_end [a..<b])"
    unfolding sorted_wrt_map
    by (rule sorted_wrt_mono_rel [OF _ sorted_wrt_upt]) (simp add: ts_less_month_end)
  show "successively (\<lambda>x y. y = following_month_end x) (map month_end [a..<b])"
    unfolding successively_map
    by (rule successively_upt) (simp add: following_month_end_def month_index_month_end)
qed

lemma take_upt_min: "take n [a..<a + m] = [a..<a + min n m]"
proof (cases "n \<le> m")
  case True
  then show ?thesis by (simp add: min_def)
next
  case False
  then show ?thesis by (simp add: min_def)
qed

lemma future_dates_month_ends:
  "take n (drop 1 (date_range (month_end k) 7)) = map month_end [Suc k..<Suc k + min n 6]"
proof -
  have e: "k + 7 = Suc k + 6" by simp
  have "drop 1 (date_range (month_end k) 7) = map month_end [Suc k..<k + 7]"
    by (simp add: date_range_def month_index_month_end drop_map del: upt_Suc)
  then have "drop 1 (date_range (month_end k) 7) = map month_end [Suc k..<Suc k + 6]"
    by (simp only: e)
  then show ?thesis
    by (simp only: take_map take_upt_min)
qed

lemma map_Date_forecast_entries:
  "map Date (forecast_entries start vs) =
     map strftime (take (length vs) (drop 1 (date_range start 7)))"
proof -
  have "map Date (forecast_entries start vs) =
      map strftime (map fst (zip (drop 1 (date_range start 7)) vs))"
    by (simp add: forecast_entries_def comp_def case_prod_unfold)
  also have "map fst (zip (drop 1 (date_range start 7)) vs) =
      take (length vs) (drop 1 (date_range start 7))"
    by (simp add: map_fst_zip_take date_range_def min_def)
  finally show ?thesis .
qed

lemma forecast_dates_chain:
  assumes hist: "history env (ticker @ ''.KA'') ''5y'' = Inr df" and ne: "df \<noteq> []"
    and valid: "\<forall>q\<in>set df. valid_date (fst q)"
    and fit: "sarimax_fit env (resample_monthly df) = Inr m"
    and fc: "model_forecast env m 6 = Inr vs"
  shows "\<exists>H F.
     H = map fst (resample_monthly df) \<and> H \<noteq> [] \<and>
     status (fst (get_forecast env ticker lg)) = 200 \<and>
     jget ''historicalDates'' (body (fst (get_forecast env ticker lg))) =
       Some (JArr (map (\<lambda>d. JStr (strftime d)) H)) \<and>
     jget ''forecastDates'' (body (fst (get_forecast env ticker lg))) =
       Some (JArr (map (\<lambda>d. JStr (strftime d)) F)) \<and>
     length F = min 6 (length vs) \<and>
     list_all is_month_end (last H # F) \<and>
     sorted_wrt ts_less (last H # F) \<and>
     successively (\<lambda>x y. y = following_month_end x) (last H # F)"
proof -
  let ?md = "resample_monthly df"
  let ?H = "map fst ?md"
  let ?hi = "month_index (fst (last (chronological df)))"
  let ?n = "min (length vs) 6"
  let ?F = "map month_end [Suc ?hi..<Suc ?hi + ?n]"
  have md: "?md \<noteq> []" by (rule resample_monthly_not_Nil [OF valid ne])
  have lastH: "last ?H = month_end ?hi"
    using md by (simp add: last_map last_resample_monthly [OF valid ne])
  have start: "fst (last ?md) = month_end ?hi"
    by (rule last_resample_monthly [OF valid ne])
  have r: "fst (get_forecast env ticker lg) =
      forecast_response (snd (last df)) ?md (month_end ?hi) 6 vs"
    using get_forecast_success [OF hist ne valid fit fc] by (simp only: start)
  have dates: "map (\<lambda>d. JStr (Date d)) (forecast_entries (month_end ?hi) vs) =
      map (\<lambda>d. JStr (strftime d)) ?F"
  proof -
    have "map (\<lambda>d. JStr (Date d)) (forecast_entries (month_end ?hi) vs) =
        map JStr (map Date (forecast_entries (month_end ?hi) vs))"
      by (simp add: comp_def)
    also have "\<dots> = map JStr (map strftime ?F)"
      by (simp only: map_Date_forecast_entries future_dates_month_ends)
    finally show ?thesis by (simp add: comp_def)
  qed
  have "?hi < Suc ?hi + ?n" by simp
  then have "[?hi..<Suc ?hi + ?n] = ?hi # [Suc ?hi..<Suc ?hi + ?n]"
    by (rule upt_conv_Cons)
  then have chain: "last ?H # ?F = map month_end [?hi..<Suc ?hi + ?n]"
    by (simp only: lastH list.map)
  have "?H \<noteq> []" using md by simp
  moreover have "status (fst (get_forecast env ticker lg)) = 200"
    by (simp add: r forecast_response_fields)
  moreover have "jget ''historicalDates'' (body (fst (get_forecast env ticker lg))) =
       Some (JArr (map (\<lambda>d. JStr (strftime d)) ?H))"
    by (simp add: r forecast_response_fields comp_def)
  moreover have "jget ''forecastDates'' (body (fst (get_forecast env ticker lg))) =
       Some (JArr (map (\<lambda>d. JStr (strftime d)) ?F))"
    by (simp only: r forecast_response_fields dates)
  moreover have "length ?F = min 6 (length vs)" by (simp add: min.commute del: upt_Suc)
  moreover have "list_all is_month_end (last ?H # ?F)"
    and "sorted_wrt ts_less (last ?H # ?F)"
    and "successively (\<lambda>x y. y = following_month_end x) (last ?H # ?F)"
    unfolding chain by (rule month_ends_chain)+
  ultimately show ?thesis by blast
qed

lemma digit_val_digit_char:
  assumes "n < 10"
  shows "digit_val (digit_char n) = n"
proof -
  from assms have "n \<in> {0, 1, 2, 3, 4, 5, 6, 7, 8, 9}" by auto
  then show ?thesis
    by (auto simp add: digit_val_def digit_char_def)
qed

lemma parse_nat_snoc: "parse_nat (s @ [c]) = 10 * parse_nat s + digit_val c"
  by (simp add: parse_nat_def)

lemma parse_nat_decimal: "parse_nat (decimal n) = n"
proof (induction n rule: decimal.induct)
  case (1 n)
  show ?case
  proof (cases "n < 10")
    case True
    then show ?thesis
      by (simp add: decimal.simps [of n] parse_nat_def digit_val_digit_char)
  next
    case False
    then have "parse_nat (decimal n) = 10 * parse_nat (decimal (n div 10)) + digit_val (digit_char (n mod 10))"
      by (simp add: decimal.simps [of n] parse_nat_snoc)
    also have "\<dots> = 10 * (n div 10) + n mod 10"
      using "1.IH" [OF False] by (simp add: digit_val_digit_char)
    finally show ?thesis by simp
  qed
qed

lemma parse_nat_zfill: "parse_nat (zfill w s) = parse_nat s"
proof -
  have "foldl (\<lambda>a c. 10 * a + digit_val c) 0 (replicate k (CHR ''0'')) = 0" for k
    by (induction k) (simp_all add: digit_val_def)
  then show ?thesis by (simp add: parse_nat_def zfill_def)
qed

lemma length_decimal_small:
  assumes "n < 100"
  shows "length (decimal n) \<le> 2"
proof (cases "n < 10")
  case True
  then show ?thesis by (simp add: decimal.simps [of n])
next
  case False
  moreover have "n div 10 < 10" using assms by simp
  ultimately show ?thesis
    by (simp add: decimal.simps [of n] decimal.simps [of "n div 10"])
qed

lemma length_zfill: "length s \<le> w \<Longrightarrow> length (zfill w s) = w"
  by (simp add: zfill_def)

text \<open>
  The format \<^verbatim>\<open>%d-%m-%Y\<close> loses nothing: reading the three fields back gives the date.
\<close>

lemma strptime_strftime:
  assumes "valid_date d"
  shows "strptime (strftime d) = d"
proof -
  have dd: "day d < 100"
    using assms by (simp add: valid_date_def days_in_month_def split: if_splits)
  have mm: "month d < 100" using assms by (simp add: valid_date_def)
  let ?a = "zfill 2 (decimal (day d))" and ?b = "zfill 2 (decimal (month d))"
  let ?c = "zfill 4 (decimal (year d))"
  have la: "length ?a = 2" by (rule length_zfill [OF length_decimal_small [OF dd]])
  have lb: "length ?b = 2" by (rule length_zfill [OF length_decimal_small [OF mm]])
  have s: "strftime d = ?a @ ''-'' @ ?b @ ''-'' @ ?c" by (simp add: strftime_def)
  have "take 2 (strftime d) = ?a" by (simp add: s la)
  moreover have "take 2 (drop 3 (strftime d)) = ?b" by (simp add: s la lb)
  moreover have "drop 6 (strftime d) = ?c" by (simp add: s la lb)
  ultimately show ?thesis
    by (simp add: strptime_def parse_nat_zfill parse_nat_decimal)
qed

lemma map_strptime_strftime:
  assumes "list_all is_month_end ds"
  shows "map strptime (map strftime ds) = ds"
  using assms by (induction ds) (simp_all add: strptime_strftime is_month_end_def)

lemma list_all_is_month_end_resample_monthly:
  "list_all is_month_end (map fst (resample_monthly s))"
proof (cases "s = []")
  case True
  then show ?thesis by (simp add: resample_monthly_def)
next
  case False
  show ?thesis
    unfolding resample_monthly_eq_monthly_rows [OF False]
    by (simp add: monthly_rows_def list_all_iff is_month_end_month_end)
qed

text \<open>
  C5. In a successful forecast response, read the strings of \<^verbatim>\<open>historicalDates\<close> and of
  \<^verbatim>\<open>forecastDates\<close> back as dates (nothing is lost: formatting the dates read gives the
  strings again). The last historical date followed by the forecast dates is then a chain
  of month ends that is strictly increasing in chronological order and in which each date
  is the month end immediately following the one before it (\<open>following_month_end_least\<close>).
  So the forecast dates are strictly increasing, each follows the previous one
  immediately, and the first follows the last historical month end. There are as many
  forecast dates as forecast values, six at most.
\<close>

theorem forecast_dates_follow_history:
  assumes hist: "history env (ticker @ ''.KA'') ''5y'' = Inr df" and ne: "df \<noteq> []"
    and valid: "\<forall>q\<in>set df. valid_date (fst q)"
    and fit: "sarimax_fit env (resample_monthly df) = Inr m"
    and fc: "model_forecast env m 6 = Inr vs"
  shows "\<exists>hs fs.
     status (fst (get_forecast env ticker lg)) = 200 \<and>
     jget ''historicalDates'' (body (fst (get_forecast env ticker lg))) =
       Some (JArr (map JStr hs)) \<and>
     jget ''forecastDates'' (body (fst (get_forecast env ticker lg))) =
       Some (JArr (map JStr fs)) \<and>
     hs \<noteq> [] \<and> length fs = min 6 (length vs) \<and>
     map strftime (map strptime hs) = hs \<and> map strftime (map strptime fs) = fs \<and>
     list_all is_month_end (map strptime (last hs # fs)) \<and>
     sorted_wrt ts_less (map strptime (last hs # fs)) \<and>
     successively (\<lambda>x y. y = following_month_end x) (map strptime (last hs # fs))"
proof -
  from forecast_dates_chain [OF hist ne valid fit fc, of lg]
  obtain H F where H: "H = map fst (resample_monthly df)" "H \<noteq> []"
    and st: "status (fst (get_forecast env ticker lg)) = 200"
    and hd: "jget ''historicalDates'' (body (fst (get_forecast env ticker lg))) =
       Some (JArr (map (\<lambda>d. JStr (strftime d)) H))"
    and fd: "jget ''forecastDates'' (body (fst (get_forecast env ticker lg))) =
       Some (JArr (map (\<lambda>d. JStr (strftime d)) F))"
    and len: "length F = min 6 (length vs)"
    and me: "list_all is_month_end (last H # F)"
    and inc: "sorted_wrt ts_less (last H # F)"
    and suc: "successively (\<lambda>x y. y = following_month_end x) (last H # F)"
    by blast
  let ?hs = "map strftime H" and ?fs = "map strftime F"
  have Hme: "list_all is_month_end H"
    unfolding H(1) by (rule list_all_is_month_end_resample_monthly)
  have Fme: "list_all is_month_end F" using me by simp
  have pH: "map strptime ?hs = H" by (rule map_strptime_strftime [OF Hme])
  have pF: "map strptime ?fs = F" by (rule map_strptime_strftime [OF Fme])
  have "last ?hs = strftime (last H)" using H(2) by (simp add: last_map)
  moreover have "is_month_end (last H)" using me by simp
  ultimately have pl: "strptime (last ?hs) = last H"
    by (simp add: strptime_strftime is_month_end_def)
  have chain: "map strptime (last ?hs # ?fs) = last H # F"
    by (simp only: list.map pl pF)
  have "jget ''historicalDates'' (body (fst (get_forecast env ticker lg))) =
       Some (JArr (map JStr ?hs))"
    using hd by (simp add: comp_def)
  moreover have "jget ''forecastDates'' (body (fst (get_forecast env ticker lg))) =
       Some (JArr (map JStr ?fs))"
    using fd by (simp add: comp_def)
  moreover have "?hs \<noteq> []" using H(2) by simp
  moreover have "length ?fs = min 6 (length vs)" using len by simp
  moreover have "map strftime (map strptime ?hs) = ?hs" by (simp only: pH)
  moreover have "map strftime (map strptime ?fs) = ?fs" by (simp only: pF)
  moreover note st me [folded chain] inc [folded chain] suc [folded chain]
  ultimately show ?thesis by blast
qed



text \<open>
  With valid dates in the provider's rows, the body of the \<^verbatim>\<open>try\<close> of the forecast
  handler returns a response: the monthly series of a non-empty series is not empty, so
  neither \<^verbatim>\<open>iloc[-1]\<close> nor \<^verbatim>\<open>index[-1]\<close> raises.
\<close>

lemma get_forecast_try_returns:
  assumes valid: "\<And>df. history env (ticker @ ''.KA'') ''5y'' = Inr df \<Longrightarrow>
                     \<forall>q\<in>set df. valid_date (fst q)"
  shows "\<exists>r. fst (get_forecast_try env ticker lg) = Inr r"
proof (cases "history env (ticker @ ''.KA'') ''5y''")
  case (Inl e)
  then show ?thesis by (simp add: get_forecast_try_def fetch_stock_data_def)
next
  case (Inr df)
  show ?thesis
  proof (cases "df = []")
    case True
    then show ?thesis using Inr by (simp add: get_forecast_try_def fetch_stock_data_def)
  next
    case False
    have "index_last (resample_monthly df) = Inr (fst (last (resample_monthly df)))"
      by (rule index_last_resample_monthly [OF valid [OF Inr] False])
    then show ?thesis
      using Inr False
      by (simp add: get_forecast_try_def fetch_stock_data_def iloc_last_def fit_sarimax_def
          forecast_def Let_def split: sum.splits)
  qed
qed

text \<open>
  C2. When the provider returns no rows for the ticker, or raises, both endpoints answer
  400 with the body \<^verbatim>\<open>{"error": "Invalid ticker symbol: <ticker>"}\<close>.
\<close>

theorem invalid_ticker_400:
  assumes "history env (ticker @ ''.KA'') ''5y'' = Inr [] \<or>
           (\<exists>e. history env (ticker @ ''.KA'') ''5y'' = Inl e)"
  shows "fst (get_current_value env ticker lg) =
           Response 400 (JObj [(''error'', JStr (''Invalid ticker symbol: '' @ ticker))]) \<and>
         fst (get_forecast env ticker lg) =
           Response 400 (JObj [(''error'', JStr (''Invalid ticker symbol: '' @ ticker))])"
proof -
  have "fst (get_current_value env ticker lg) = invalid_ticker ticker"
    using assms
    by (auto simp add: get_current_value_def get_current_value_try_def
        get_current_value_except_def fetch_stock_data_def)
  then show ?thesis
    by (simp add: get_forecast_not_fetched [OF assms] invalid_ticker_def)
qed

section \<open>The sample requests\<close>




lemma valid_sample_rows: "\<forall>q\<in>set sample_rows. valid_date (fst q)"
  by (simp add: sample_rows_def calendar_defs)

lemma sample_fit: "sarimax_fit sample_env (resample_monthly sample_rows) = Inr 4"
  by (simp add: resample_monthly_sample_rows sample_env_def)

lemma sample_forecast:
  "model_forecast sample_env 4 6 = Inr [Num 110, Num 111, Num 112, Num 113, Num 114, Num 115]"
  by (simp add: sample_env_def upt_rec numeral_eq_Suc)

theorem invalid_ticker_400_witness:
  "fst (get_current_value sample_env ''NONE'' []) =
     Response 400 (JObj [(''error'', JStr ''Invalid ticker symbol: NONE'')]) \<and>
   fst (get_forecast sample_env ''NONE'' []) =
     Response 400 (JObj [(''error'', JStr ''Invalid ticker symbol: NONE'')]) \<and>
   fst (get_current_value sample_env ''XYZ'' []) =
     Response 400 (JObj [(''error'', JStr ''Invalid ticker symbol: XYZ'')]) \<and>
   fst (get_forecast sample_env ''XYZ'' []) =
     Response 400 (JObj [(''error'', JStr ''Invalid ticker symbol: XYZ'')])"
  using invalid_ticker_400 [of sample_env "''NONE''" "[]"]
    invalid_ticker_400 [of sample_env "''XYZ''" "[]"] history_sample_env
  by simp




theorem forecast_has_six_entries_witness:
  "status (fst (get_forecast sample_env ''ABC'' [])) = 200 \<and>
     (\<exists>es ds fs.
        jget ''forecast'' (body (fst (get_forecast sample_env ''ABC'' []))) = Some (JArr es) \<and>
        jget ''forecastDates'' (body (fst (get_forecast sample_env ''ABC'' []))) =
          Some (JArr ds) \<and>
        jget ''forecastValues'' (body (fst (get_forecast sample_env ''ABC'' []))) =
          Some (JArr fs) \<and>
        length es = 6 \<and> length ds = 6 \<and> length fs = 6)"
proof -
  have "history sample_env (''ABC'' @ ''.KA'') ''5y'' = Inr sample_rows"
    using history_sample_env(1) by simp
  then show ?thesis
    by (rule forecast_has_six_entries [OF _ sample_rows_not_Nil valid_sample_rows sample_fit
          sample_forecast]) simp
qed

theorem forecast_dates_follow_history_witness:
  "\<exists>hs fs.
     status (fst (get_forecast sample_env ''ABC'' [])) = 200 \<and>
     jget ''historicalDates'' (body (fst (get_forecast sample_env ''ABC'' []))) =
       Some (JArr (map JStr hs)) \<and>
     jget ''forecastDates'' (body (fst (get_forecast sample_env ''ABC'' []))) =
       Some (JArr (map JStr fs)) \<and>
     hs \<noteq> [] \<and> length fs = 6 \<and>
     map strftime (map strptime hs) = hs \<and> map strftime (map strptime fs) = fs \<and>
     list_all is_month_end (map strptime (last hs # fs)) \<and>
     sorted_wrt ts_less (map strptime (last hs # fs)) \<and>
     successively (\<lambda>x y. y = following_month_end x) (map strptime (last hs # fs))"
proof -
  have "history sample_env (''ABC'' @ ''.KA'') ''5y'' = Inr sample_rows"
    using history_sample_env(1) by simp
  moreover have "min 6 (length [Num 110, Num 111, Num 112, Num 113, Num 114, Num (115 :: real)]) = 6"
    by simp
  ultimately show ?thesis
    using forecast_dates_follow_history [OF _ sample_rows_not_Nil valid_sample_rows sample_fit
      sample_forecast, of "''ABC''" "[]"]
    by (simp only:)
qed

lemma sample_success:
  "fst (get_forecast sample_env ''ABC'' []) =
     forecast_response (Num 110) (resample_monthly sample_rows) (Timestamp 2024 4 30) 6
       [Num 110, Num 111, Num 112, Num 113, Num 114, Num 115]"
proof -
  have "history sample_env (''ABC'' @ ''.KA'') ''5y'' = Inr sample_rows"
    using history_sample_env(1) by simp
  from get_forecast_success [OF this sample_rows_not_Nil valid_sample_rows sample_fit
      sample_forecast, of "[]"]
  show ?thesis by (simp add: resample_monthly_sample_rows) (simp add: sample_rows_def)
qed

theorem forecast_arrays_agree_witness:
  "\<exists>es ds fs.
     jget ''forecast'' (body (fst (get_forecast sample_env ''ABC'' []))) = Some (JArr es) \<and>
     jget ''forecastDates'' (body (fst (get_forecast sample_env ''ABC'' []))) = Some (JArr ds) \<and>
     jget ''forecastValues'' (body (fst (get_forecast sample_env ''ABC'' []))) = Some (JArr fs) \<and>
     map (jget ''Date'') es = map Some ds \<and>
     map (jget ''Forecast'') es = map Some fs"
proof -
  have "status (fst (get_forecast sample_env ''ABC'' [])) = 200"
    by (simp only: sample_success forecast_response_fields)
  then show ?thesis by (rule forecast_arrays_agree)
qed

theorem resample_monthly_idempotent_witness:
  "resample_monthly (resample_monthly sample_rows) =
     [(Timestamp 2024 1 31, Num 105), (Timestamp 2024 2 29, NaN),
      (Timestamp 2024 3 31, Num 107), (Timestamp 2024 4 30, Num 110)]"
  using resample_monthly_idempotent [of sample_rows]
  by (simp only: resample_monthly_sample_rows)

theorem get_current_value_shapes_witness:
  "status (fst (get_current_value sample_env ''ABC'' [])) = 200 \<and>
   status (fst (get_current_value sample_env ''NONE'' [])) = 400 \<and>
   status (fst (get_current_value sample_env ''XYZ'' [])) = 400 \<and>
   fst (get_current_value_except ''XYZ'' (Exn ''KeyError'' ''Close'') [] :: real response \<times> log) =
     Response 400 (JObj [(''error'', JStr ''Invalid ticker symbol: XYZ'')])"
proof -
  have "status (fst (get_current_value sample_env ''ABC'' [])) \<noteq> 400"
    and "\<nexists>p. fst (get_current_value sample_env ''NONE'' []) =
           Response 200 (JObj [(''currentPrice'', JNum p)])"
    and "\<nexists>p. fst (get_current_value sample_env ''XYZ'' []) =
           Response 200 (JObj [(''currentPrice'', JNum p)])"
    by (simp_all add: get_current_value_def get_current_value_try_def
        get_current_value_except_def fetch_stock_data_def iloc_last_def invalid_ticker_def
        sample_env_def sample_rows_def)
  then show ?thesis
    using get_current_value_shapes [of sample_env "''ABC''" "[]" "Exn ''KeyError'' ''Close''" "[]"]
      get_current_value_shapes [of sample_env "''NONE''" "[]" "Exn ''KeyError'' ''Close''" "[]"]
      get_current_value_shapes [of sample_env "''XYZ''" "[]" "Exn ''KeyError'' ''Close''" "[]"]
    by auto
qed

text \<open>The whole response of the forecast endpoint for the sample ticker \<^verbatim>\<open>ABC\<close>.\<close>

lemma get_forecast_sample_response:
  "fst (get_forecast sample_env ''ABC'' []) =
     Response 200 (JObj
       [(''currentPrice'', JNum (Num 110)),
        (''forecast'', JArr
           [JObj [(''Date'', JStr ''31-05-2024''), (''Forecast'', JNum (Num 110))],
            JObj [(''Date'', JStr ''30-06-2024''), (''Forecast'', JNum (Num 111))],
            JObj [(''Date'', JStr ''31-07-2024''), (''Forecast'', JNum (Num 112))],
            JObj [(''Date'', JStr ''31-08-2024''), (''Forecast'', JNum (Num 113))],
            JObj [(''Date'', JStr ''30-09-2024''), (''Forecast'', JNum (Num 114))],
            JObj [(''Date'', JStr ''31-10-2024''), (''Forecast'', JNum (Num 115))]]),
        (''historicalDates'', JArr
           [JStr ''31-01-2024'', JStr ''29-02-2024'', JStr ''31-03-2024'', JStr ''30-04-2024'']),
        (''historicalValues'', JArr [JNum (Num 105), JNum NaN, JNum (Num 107), JNum (Num 110)]),
        (''forecastDates'', JArr
           [JStr ''31-05-2024'', JStr ''30-06-2024'', JStr ''31-07-2024'', JStr ''31-08-2024'',
            JStr ''30-09-2024'', JStr ''31-10-2024'']),
        (''forecastValues'', JArr
           [JNum (Num 110), JNum (Num 111), JNum (Num 112), JNum (Num 113), JNum (Num 114),
            JNum (Num 115)])])"
proof -
  have fd: "drop (Suc 0) (date_range (Timestamp 2024 4 30) 7) =
      [Timestamp 2024 5 31, Timestamp 2024 6 30, Timestamp 2024 7 31, Timestamp 2024 8 31,
       Timestamp 2024 9 30, Timestamp 2024 10 31]"
    by (simp add: date_range_def calendar_defs upt_rec)
  have st: "map strftime [Timestamp 2024 5 31, Timestamp 2024 6 30, Timestamp 2024 7 31, Timestamp 2024 8 31,
       Timestamp 2024 9 30, Timestamp 2024 10 31, Timestamp 2024 1 31, Timestamp 2024 2 29,
       Timestamp 2024 3 31, Timestamp 2024 4 30] =
     [''31-05-2024'', ''30-06-2024'', ''31-07-2024'', ''31-08-2024'', ''30-09-2024'',
      ''31-10-2024'', ''31-01-2024'', ''29-02-2024'', ''31-03-2024'', ''30-04-2024'']"
    by (simp add: strftime_def zfill_def decimal.simps digit_char_def)
  show ?thesis
    using st
    by (simp add: sample_success forecast_response_def Let_def fd resample_monthly_sample_rows
        entry_json_def)
qed

end
